theory Spec2Isabelle
  imports Main
begin

section \<open>Doris connection handler\<close>

text \<open>
  The model of \<^verbatim>\<open>ingestion/source/database/doris/connection.py\<close>.

  A value stored in the free-form connection arguments: a string, a nested dictionary
  with string keys, or anything else (numbers, booleans, lists, \<^verbatim>\<open>None\<close>).
\<close>

datatype 'v arg_value =
    Str string
  | Dict "string \<Rightarrow> 'v arg_value option"
  | Other 'v

type_synonym 'v arguments = "string \<Rightarrow> 'v arg_value option"

text \<open>
  The TLS bundle, read by the source as \<^verbatim>\<open>connection.ssl.__root__\<close>: three fields, each
  \<^verbatim>\<open>None\<close> or a string.
\<close>

record ssl_config =
  caCertificate :: "string option"
  sslCertificate :: "string option"
  sslKey :: "string option"

text \<open>
  The connection descriptor. The TLS bundle is optional, and so are the connection
  arguments: \<open>None\<close> is a descriptor without the one or the other. Only \<^verbatim>\<open>ssl\<close> and
  \<^verbatim>\<open>connectionArguments\<close> are touched by the handler; host, credentials and every other
  field live in the extension part of the record.
\<close>

record 'v doris_connection =
  ssl :: "ssl_config option"
  connectionArguments :: "'v arguments option"

text \<open>
  The two ways in which the handler itself fails: reading \<^verbatim>\<open>.__root__\<close> of a bundle that
  is \<^verbatim>\<open>None\<close>, and assigning an item of a value that is not a dictionary.
\<close>

datatype error = AttributeError | TypeError

text \<open>Python truthiness of an optional string: \<^verbatim>\<open>None\<close> and \<^verbatim>\<open>""\<close> are false.\<close>

definition truthy :: "string option \<Rightarrow> bool" where
  "truthy field = (case field of None \<Rightarrow> False | Some s \<Rightarrow> s \<noteq> [])"

text \<open>
  Modelled from the spec: \<^verbatim>\<open>init_empty_connection_arguments\<close> lives in
  \<^verbatim>\<open>metadata.ingestion.connections.builders\<close>, which is not among the sources; the
  specification says it returns a fresh empty map.
\<close>

definition init_empty_connection_arguments :: "'v arguments" where
  "init_empty_connection_arguments = Map.empty"

text \<open>
  \<^verbatim>\<open>connection.connectionArguments or init_empty_connection_arguments()\<close>: a missing or
  an empty dictionary is falsy and is replaced by the fresh one.
\<close>

definition arguments_or_empty :: "'v arguments option \<Rightarrow> 'v arguments" where
  "arguments_or_empty args =
     (case args of
        None \<Rightarrow> init_empty_connection_arguments
      | Some m \<Rightarrow> if m = Map.empty then init_empty_connection_arguments else m)"

text \<open>
  One statement \<^verbatim>\<open>if field: ssl_args[key] = field\<close> of the source.
\<close>

definition set_if_truthy ::
  "string \<Rightarrow> string option \<Rightarrow> 'v arguments \<Rightarrow> 'v arguments" where
  "set_if_truthy key field ssl_args =
     (case field of
        None \<Rightarrow> ssl_args
      | Some s \<Rightarrow> if s \<noteq> [] then ssl_args(key \<mapsto> Str s) else ssl_args)"

text \<open>
  Lines 41 to 56 of the source: the TLS merge. The descriptor is mutated in place in
  the source; here the updated descriptor is returned. The guard of line 41 reads
  \<^verbatim>\<open>connection.ssl.__root__\<close> first, which raises \<^verbatim>\<open>AttributeError\<close> when the descriptor has
  no bundle. \<^verbatim>\<open>.get("ssl", {})\<close> yields the stored value when the key is there, whatever
  it is; item assignment on anything but a dictionary raises \<^verbatim>\<open>TypeError\<close>, and at least
  one assignment is attempted in this branch.
\<close>

definition merge_ssl ::
  "('v, 'z) doris_connection_scheme \<Rightarrow> error + ('v, 'z) doris_connection_scheme" where
  "merge_ssl connection =
     (case ssl connection of
        None \<Rightarrow> Inl AttributeError
      | Some root \<Rightarrow>
          if truthy (caCertificate root) \<or> truthy (sslCertificate root) \<or> truthy (sslKey root)
          then
            (let args = arguments_or_empty (connectionArguments connection) in
             case (case args ''ssl'' of None \<Rightarrow> Dict Map.empty | Some v \<Rightarrow> v) of
               Dict ssl_args \<Rightarrow>
                 (let ssl_args1 = set_if_truthy ''ssl_ca'' (caCertificate root) ssl_args;
                      ssl_args2 = set_if_truthy ''ssl_cert'' (sslCertificate root) ssl_args1;
                      ssl_args3 = set_if_truthy ''ssl_key'' (sslKey root) ssl_args2
                  in Inr (connection\<lparr>connectionArguments :=
                                        Some (args(''ssl'' \<mapsto> Dict ssl_args3))\<rparr>))
             | _ \<Rightarrow> Inl TypeError)
          else Inr connection)"

text \<open>
  \<^verbatim>\<open>get_connection\<close>: the merge, then the generic builder, which is handed the
  descriptor and the two common builder functions. The generic builder and the two
  functions come from modules outside the sources and are parameters. The result
  pairs the descriptor as the caller sees it afterwards with the engine.
\<close>

definition get_connection ::
  "(('v, 'z) doris_connection_scheme \<Rightarrow> 'u \<Rightarrow> 'a \<Rightarrow> 'e) \<Rightarrow> 'u \<Rightarrow> 'a \<Rightarrow>
   ('v, 'z) doris_connection_scheme \<Rightarrow> error + (('v, 'z) doris_connection_scheme \<times> 'e)" where
  "get_connection create_generic_db_connection get_connection_url_common
       get_connection_args_common connection =
     (case merge_ssl connection of
        Inl e \<Rightarrow> Inl e
      | Inr connection' \<Rightarrow>
          Inr (connection',
               create_generic_db_connection connection'
                 get_connection_url_common get_connection_args_common))"

text \<open>
  What \<^verbatim>\<open>.get("ssl", {})\<close> hands to the assignments: the dictionary stored under
  \<^verbatim>\<open>"ssl"\<close>, the empty one when the key is missing, and \<open>None\<close> when the stored value is
  not a dictionary (the case in which the source raises).
\<close>

definition existing_ssl :: "('v, 'z) doris_connection_scheme \<Rightarrow> 'v arguments option" where
  "existing_ssl connection =
     (case arguments_or_empty (connectionArguments connection) ''ssl'' of
        None \<Rightarrow> Some Map.empty
      | Some (Dict m) \<Rightarrow> Some m
      | Some _ \<Rightarrow> None)"

text \<open>The guard of line 41, on a bundle that is there: at least one TLS field is set.\<close>

definition any_tls :: "ssl_config \<Rightarrow> bool" where
  "any_tls s = (truthy (caCertificate s) \<or> truthy (sslCertificate s) \<or> truthy (sslKey s))"

text \<open>The nested \<^verbatim>\<open>"ssl"\<close> dictionary of a descriptor, when it has one.\<close>

definition ssl_map_of :: "('v, 'z) doris_connection_scheme \<Rightarrow> 'v arguments option" where
  "ssl_map_of connection =
     (case connectionArguments connection of
        None \<Rightarrow> None
      | Some args \<Rightarrow> (case args ''ssl'' of Some (Dict m) \<Rightarrow> Some m | _ \<Rightarrow> None))"

text \<open>The keys that belong to the TLS fields that are set.\<close>

definition present_tls_keys :: "ssl_config \<Rightarrow> string set" where
  "present_tls_keys s =
     (if truthy (caCertificate s) then {''ssl_ca''} else {}) \<union>
     (if truthy (sslCertificate s) then {''ssl_cert''} else {}) \<union>
     (if truthy (sslKey s) then {''ssl_key''} else {})"

text \<open>
  The property "after \<^verbatim>\<open>get_connection\<close> the nested \<^verbatim>\<open>"ssl"\<close> dictionary holds the keys of
  the TLS fields that are set and no other entry", as a predicate on the input
  descriptor.
\<close>

definition ssl_only_present_fields ::
  "(('v, 'z) doris_connection_scheme \<Rightarrow> 'u \<Rightarrow> 'a \<Rightarrow> 'e) \<Rightarrow> 'u \<Rightarrow> 'a \<Rightarrow>
   ('v, 'z) doris_connection_scheme \<Rightarrow> bool" where
  "ssl_only_present_fields create url_fn args_fn connection =
     (case get_connection create url_fn args_fn connection of
        Inl e \<Rightarrow> False
      | Inr (connection', engine) \<Rightarrow>
          (case ssl connection of
             None \<Rightarrow> False
           | Some root \<Rightarrow>
               (case ssl_map_of connection' of
                  None \<Rightarrow> False
                | Some m \<Rightarrow> dom m = present_tls_keys root)))"

subsection \<open>Sample descriptors\<close>

definition c_ca_only :: "unit doris_connection" where
  "c_ca_only =
     \<lparr>ssl = Some \<lparr>caCertificate = Some ''ca.pem'', sslCertificate = None, sslKey = Some ''''\<rparr>,
      connectionArguments = None\<rparr>"

definition c_ssl_string :: "unit doris_connection" where
  "c_ssl_string =
     \<lparr>ssl = Some \<lparr>caCertificate = Some ''ca.pem'', sslCertificate = None, sslKey = None\<rparr>,
      connectionArguments = Some [''ssl'' \<mapsto> Str ''true'']\<rparr>"

definition c_preexisting_ssl :: "bool doris_connection" where
  "c_preexisting_ssl =
     \<lparr>ssl = Some \<lparr>caCertificate = Some ''ca.pem'', sslCertificate = None, sslKey = None\<rparr>,
      connectionArguments = Some [''ssl'' \<mapsto> Dict [''check_hostname'' \<mapsto> Other False]]\<rparr>"

definition c_merge_into_ssl :: "bool doris_connection" where
  "c_merge_into_ssl =
     \<lparr>ssl = Some \<lparr>caCertificate = None, sslCertificate = Some ''client.pem'', sslKey = None\<rparr>,
      connectionArguments = Some [''ssl'' \<mapsto> Dict [''check_hostname'' \<mapsto> Other True]]\<rparr>"

definition c_no_bundle :: "unit doris_connection" where
  "c_no_bundle = \<lparr>ssl = None, connectionArguments = None\<rparr>"

definition c_all_tls :: "unit doris_connection" where
  "c_all_tls =
     \<lparr>ssl = Some \<lparr>caCertificate = Some ''ca.pem'', sslCertificate = Some ''client.pem'',
                  sslKey = Some ''client.key''\<rparr>,
      connectionArguments = Some [''charset'' \<mapsto> Str ''utf8'']\<rparr>"

definition c_all_tls_ssl_string :: "unit doris_connection" where
  "c_all_tls_ssl_string =
     \<lparr>ssl = Some \<lparr>caCertificate = Some ''ca.pem'', sslCertificate = Some ''client.pem'',
                  sslKey = Some ''client.key''\<rparr>,
      connectionArguments = Some [''charset'' \<mapsto> Str ''utf8'', ''ssl'' \<mapsto> Str ''require'']\<rparr>"

section \<open>Trino sampler\<close>

text \<open>
  The model of \<^verbatim>\<open>profiler/processor/sampler/sqlalchemy/trino/sampler.py\<close>.

  A column has a name and a type; \<^verbatim>\<open>type(col.type)\<close>, the class of the type object, is
  what the source tests, and it is the \<open>type\<close> field here. A table is the ordered
  collection of its columns, \<^verbatim>\<open>inspect(self.table).c\<close>.
\<close>

record 'ty column =
  name :: string
  type :: 'ty

record 'ty table =
  columns :: "'ty column list"

text \<open>What is selected: \<^verbatim>\<open>self.table\<close> or the column given.\<close>

datatype 'ty entity = TableEntity "'ty table" | ColumnEntity "'ty column"

text \<open>
  The pieces of the query library the source calls, kept as the calls are made:
  \<^verbatim>\<open>text(s)\<close> is a raw SQL fragment, \<^verbatim>\<open>or_(*clauses)\<close> their disjunction,
  \<^verbatim>\<open>client.query(entity, label)\<close> a query with no criterion, and \<^verbatim>\<open>.where(clause)\<close> adds
  one criterion to the criteria of the query.
\<close>

datatype text_clause = Text string

datatype clause = or_clause "text_clause list"

record ('ty, 'l) query =
  entity :: "'ty entity"
  label :: "'l option"
  where_criteria :: "clause list"

definition client_query :: "'ty entity \<Rightarrow> 'l option \<Rightarrow> ('ty, 'l) query" where
  "client_query e l = \<lparr>entity = e, label = l, where_criteria = []\<rparr>"

definition query_where :: "('ty, 'l) query \<Rightarrow> clause \<Rightarrow> ('ty, 'l) query" where
  "query_where q cl = q\<lparr>where_criteria := where_criteria q @ [cl]\<rparr>"

record 'ty TrinoSampler =
  table :: "'ty table"

text \<open>
  \<^verbatim>\<open>TrinoSampler._base_sample_query\<close>. \<^verbatim>\<open>FLOAT_SET\<close> and \<^verbatim>\<open>RANDOM_LABEL\<close> are imported from
  modules outside the sources and are parameters.
\<close>

definition base_sample_query ::
  "'ty set \<Rightarrow> string \<Rightarrow> 'ty TrinoSampler \<Rightarrow> 'ty column option \<Rightarrow> 'l option \<Rightarrow>
   ('ty, 'l) query" where
  "base_sample_query FLOAT_SET RANDOM_LABEL self column lbl =
     (let sqa_columns = filter (\<lambda>col. name col \<noteq> RANDOM_LABEL) (columns (table self));
          entity = (case column of
                      None \<Rightarrow> TableEntity (table self)
                    | Some col \<Rightarrow> ColumnEntity col)
      in query_where (client_query entity lbl)
           (or_clause
              (map (\<lambda>cols. Text (''is_nan('' @ name cols @ '') = False''))
                 (filter (\<lambda>cols. type cols \<in> FLOAT_SET) sqa_columns))))"

text \<open>The raw SQL fragments that the criteria of a query hold.\<close>

fun clause_texts :: "clause \<Rightarrow> string list" where
  "clause_texts (or_clause ts) = map (\<lambda>t. case t of Text s \<Rightarrow> s) ts"

definition nan_predicates :: "('ty, 'l) query \<Rightarrow> string list" where
  "nan_predicates q = concat (map clause_texts (where_criteria q))"

subsection \<open>Which rows a query keeps\<close>

text \<open>
  For the claims about rows: a row says of each column whether its value is NaN, a
  number, or null. A fragment \<^verbatim>\<open>is_nan(x) = False\<close> is true in a row when the value of
  column \<open>x\<close> is a number (on a null value it is null, and a row is kept only where the
  criterion is true); the column is read back from the fragment by dropping the fixed
  text around it.
\<close>

datatype cell = NaN | Valid | Null

definition is_nan_column :: "string \<Rightarrow> string option" where
  "is_nan_column s =
     (if 16 \<le> length s \<and> take 7 s = ''is_nan('' \<and> drop (length s - 9) s = '') = False''
      then Some (take (length s - 16) (drop 7 s)) else None)"

fun text_holds :: "(string \<Rightarrow> cell) \<Rightarrow> text_clause \<Rightarrow> bool" where
  "text_holds row (Text s) =
     (case is_nan_column s of None \<Rightarrow> False | Some col \<Rightarrow> row col = Valid)"

text \<open>
  The query library compiles \<^verbatim>\<open>or_()\<close> of no clause to an empty clause list, which
  generates no SQL, and leaves a \<^verbatim>\<open>WHERE\<close> whose criteria generate nothing out of the
  statement: such a criterion keeps every row. A disjunction of one clause or more
  keeps the rows in which one of them is true. The criteria of a query are joined by
  \<^verbatim>\<open>AND\<close>.
\<close>

fun clause_holds :: "(string \<Rightarrow> cell) \<Rightarrow> clause \<Rightarrow> bool" where
  "clause_holds row (or_clause []) = True"
| "clause_holds row (or_clause ts) = list_ex (text_holds row) ts"

definition row_passes :: "(string \<Rightarrow> cell) \<Rightarrow> ('ty, 'l) query \<Rightarrow> bool" where
  "row_passes row q = list_all (clause_holds row) (where_criteria q)"

subsection \<open>The constructor\<close>

text \<open>
  \<^verbatim>\<open>TrinoDialect._json_deserializer\<close> is a class attribute: one cell of the state of the
  process, shared by every sampler. \<open>None\<close> is Python's \<^verbatim>\<open>None\<close>. The rest of the process
  state is the extension part of the record.
\<close>

record 'h TrinoDialect =
  json_deserializer :: "'h option"

text \<open>
  \<^verbatim>\<open>TrinoSampler.__init__\<close>: the assignment, then the initializer of the base class,
  which is outside the sources and a parameter. It takes the arguments and the process
  state and returns the sampler with the state it leaves behind.
\<close>

definition TrinoSampler_init ::
  "('args \<Rightarrow> ('h, 'z) TrinoDialect_scheme \<Rightarrow> 's \<times> ('h, 'z) TrinoDialect_scheme) \<Rightarrow>
   'args \<Rightarrow> ('h, 'z) TrinoDialect_scheme \<Rightarrow> 's \<times> ('h, 'z) TrinoDialect_scheme" where
  "TrinoSampler_init super_init args process =
     super_init args (process\<lparr>json_deserializer := None\<rparr>)"

text \<open>Constructing one sampler after another, each from its own arguments.\<close>

fun construct_all ::
  "('args \<Rightarrow> ('h, 'z) TrinoDialect_scheme \<Rightarrow> 's \<times> ('h, 'z) TrinoDialect_scheme) \<Rightarrow>
   'args list \<Rightarrow> ('h, 'z) TrinoDialect_scheme \<Rightarrow> ('h, 'z) TrinoDialect_scheme" where
  "construct_all super_init [] process = process"
| "construct_all super_init (args # rest) process =
     construct_all super_init rest (snd (TrinoSampler_init super_init args process))"

subsection \<open>Sample tables\<close>

definition t_no_float :: "string TrinoSampler" where
  "t_no_float =
     \<lparr>table = \<lparr>columns = [\<lparr>name = ''id'', type = ''INTEGER''\<rparr>,
                          \<lparr>name = ''random'', type = ''FLOAT''\<rparr>]\<rparr>\<rparr>"

definition t_two_floats :: "string TrinoSampler" where
  "t_two_floats =
     \<lparr>table = \<lparr>columns = [\<lparr>name = ''random'', type = ''FLOAT''\<rparr>,
                          \<lparr>name = ''a'', type = ''FLOAT''\<rparr>,
                          \<lparr>name = ''id'', type = ''INTEGER''\<rparr>,
                          \<lparr>name = ''b'', type = ''DOUBLE''\<rparr>]\<rparr>\<rparr>"

section \<open>Properties of the Doris connection handler\<close>

lemma arguments_or_empty_eq:
  "arguments_or_empty a = (case a of None \<Rightarrow> Map.empty | Some m \<Rightarrow> m)"
  by (simp add: arguments_or_empty_def init_empty_connection_arguments_def split: option.splits)

lemma set_if_truthy_apply:
  "set_if_truthy key field m k =
     (if k = key \<and> truthy field then map_option Str field else m k)"
  by (simp add: set_if_truthy_def truthy_def split: option.splits)

lemma dom_set_if_truthy:
  "dom (set_if_truthy key field m) = (if truthy field then {key} else {}) \<union> dom m"
  by (auto simp: set_if_truthy_def truthy_def split: option.splits)

lemma set_if_truthy_thrice_idem:
  "set_if_truthy k3 f3 (set_if_truthy k2 f2 (set_if_truthy k1 f1
     (set_if_truthy k3 f3 (set_if_truthy k2 f2 (set_if_truthy k1 f1 m))))) =
   set_if_truthy k3 f3 (set_if_truthy k2 f2 (set_if_truthy k1 f1 m))"
  by (rule ext) (simp add: set_if_truthy_apply)

lemma merge_ssl_no_bundle:
  "ssl c = None \<Longrightarrow> merge_ssl c = Inl AttributeError"
  by (simp add: merge_ssl_def)

lemma merge_ssl_no_tls:
  "ssl c = Some s \<Longrightarrow> \<not> any_tls s \<Longrightarrow> merge_ssl c = Inr c"
  by (simp add: merge_ssl_def any_tls_def)

lemma merge_ssl_tls:
  assumes "ssl c = Some s" and "any_tls s" and "existing_ssl c = Some m0"
  shows "merge_ssl c =
     Inr (c\<lparr>connectionArguments :=
            Some ((arguments_or_empty (connectionArguments c))(''ssl'' \<mapsto>
               Dict (set_if_truthy ''ssl_key'' (sslKey s)
                      (set_if_truthy ''ssl_cert'' (sslCertificate s)
                        (set_if_truthy ''ssl_ca'' (caCertificate s) m0)))))\<rparr>)"
  using assms
  by (auto simp: merge_ssl_def any_tls_def existing_ssl_def Let_def
           split: option.splits arg_value.splits)

lemma merge_ssl_type_error:
  assumes "ssl c = Some s" and "any_tls s" and "existing_ssl c = None"
  shows "merge_ssl c = Inl TypeError"
  using assms
  by (auto simp: merge_ssl_def any_tls_def existing_ssl_def Let_def
           split: option.splits arg_value.splits)

text \<open>
  Claim C3, as stated, fails: with a TLS field set and a string stored under \<^verbatim>\<open>"ssl"\<close>
  in the connection arguments, line 49 reads the string and the assignment of line 51
  raises \<^verbatim>\<open>TypeError\<close>; nothing is written back and the builder is not reached.
\<close>

theorem get_connection_ssl_string_counterexample:
  "ssl c_ssl_string =
     Some \<lparr>caCertificate = Some ''ca.pem'', sslCertificate = None, sslKey = None\<rparr> \<and>
   any_tls \<lparr>caCertificate = Some ''ca.pem'', sslCertificate = None, sslKey = None\<rparr> \<and>
   connectionArguments c_ssl_string = Some [''ssl'' \<mapsto> Str ''true''] \<and>
   get_connection (\<lambda>c u a. ()) () () c_ssl_string = Inl TypeError"
proof -
  have h1: "ssl c_ssl_string =
      Some \<lparr>caCertificate = Some ''ca.pem'', sslCertificate = None, sslKey = None\<rparr>"
    by (simp add: c_ssl_string_def)
  have h2: "any_tls \<lparr>caCertificate = Some ''ca.pem'', sslCertificate = None, sslKey = None\<rparr>"
    by (simp add: any_tls_def truthy_def)
  have h3: "existing_ssl c_ssl_string = None"
    by (simp add: existing_ssl_def arguments_or_empty_eq c_ssl_string_def)
  have h4: "connectionArguments c_ssl_string = Some [''ssl'' \<mapsto> Str ''true'']"
    by (simp add: c_ssl_string_def)
  from merge_ssl_type_error [OF h1 h2 h3] h1 h2 h4 show ?thesis
    by (simp add: get_connection_def)
qed

text \<open>
  Claim C3, amended. When the descriptor has a TLS bundle \<open>s\<close> in which at least one
  of the three fields is non-empty, and the value already stored under \<^verbatim>\<open>"ssl"\<close> in the
  connection arguments, if there is one, is a dictionary \<open>m0\<close> (\<open>m0\<close> is empty when
  there is none), \<^verbatim>\<open>get_connection\<close> returns the engine that the generic builder makes
  from the updated descriptor and the two common builder functions. In the updated
  descriptor the connection arguments exist: they are the supplied ones, or the empty
  map when none were supplied, with \<^verbatim>\<open>"ssl"\<close> bound to the sub-map \<open>m'\<close>. In \<open>m'\<close> each of
  \<^verbatim>\<open>ssl_ca\<close>, \<^verbatim>\<open>ssl_cert\<close>, \<^verbatim>\<open>ssl_key\<close> holds its TLS field when that field is set and
  is left as in \<open>m0\<close> when it is not, and every other key is as in \<open>m0\<close>.
\<close>

theorem get_connection_merges_tls:
  assumes "ssl c = Some s" and "any_tls s" and "existing_ssl c = Some m0"
  shows "\<exists>args' m'.
      get_connection create url_fn args_fn c =
        Inr (c\<lparr>connectionArguments := Some args'\<rparr>,
             create (c\<lparr>connectionArguments := Some args'\<rparr>) url_fn args_fn)
    \<and> args' = (case connectionArguments c of None \<Rightarrow> Map.empty | Some a \<Rightarrow> a)(''ssl'' \<mapsto> Dict m')
    \<and> m' ''ssl_ca'' = (if truthy (caCertificate s)
                        then map_option Str (caCertificate s) else m0 ''ssl_ca'')
    \<and> m' ''ssl_cert'' = (if truthy (sslCertificate s)
                        then map_option Str (sslCertificate s) else m0 ''ssl_cert'')
    \<and> m' ''ssl_key'' = (if truthy (sslKey s)
                        then map_option Str (sslKey s) else m0 ''ssl_key'')
    \<and> (\<forall>k. k \<notin> {''ssl_ca'', ''ssl_cert'', ''ssl_key''} \<longrightarrow> m' k = m0 k)"
proof -
  let ?m = "set_if_truthy ''ssl_key'' (sslKey s)
              (set_if_truthy ''ssl_cert'' (sslCertificate s)
                (set_if_truthy ''ssl_ca'' (caCertificate s) m0))"
  let ?args = "(arguments_or_empty (connectionArguments c))(''ssl'' \<mapsto> Dict ?m)"
  have merged: "merge_ssl c = Inr (c\<lparr>connectionArguments := Some ?args\<rparr>)"
    using merge_ssl_tls [OF assms] .
  show ?thesis
    apply (rule exI [of _ ?args])
    apply (rule exI [of _ ?m])
    apply (simp add: merged get_connection_def arguments_or_empty_eq set_if_truthy_apply)
    done
qed

theorem get_connection_merges_tls_witness:
  "ssl c_ca_only =
     Some \<lparr>caCertificate = Some ''ca.pem'', sslCertificate = None, sslKey = Some ''''\<rparr> \<and>
   any_tls \<lparr>caCertificate = Some ''ca.pem'', sslCertificate = None, sslKey = Some ''''\<rparr> \<and>
   existing_ssl c_ca_only = Some Map.empty \<and>
   get_connection (\<lambda>c u a. (u, a)) (1::nat) True c_ca_only =
     Inr (c_ca_only\<lparr>connectionArguments :=
                       Some [''ssl'' \<mapsto> Dict [''ssl_ca'' \<mapsto> Str ''ca.pem'']]\<rparr>,
          (1, True))"
proof -
  let ?s = "\<lparr>caCertificate = Some ''ca.pem'', sslCertificate = None, sslKey = Some ''''\<rparr>"
  have h0: "ssl c_ca_only = Some ?s"
    by (simp add: c_ca_only_def)
  have h1: "any_tls ?s"
    by (simp add: any_tls_def truthy_def)
  have h2: "existing_ssl c_ca_only = Some Map.empty"
    by (simp add: existing_ssl_def arguments_or_empty_eq c_ca_only_def)
  from get_connection_merges_tls [OF h0 h1 h2, of "\<lambda>c u a. (u, a)" "1::nat" True]
  obtain args' m' where
    r: "get_connection (\<lambda>c u a. (u, a)) (1::nat) True c_ca_only =
          Inr (c_ca_only\<lparr>connectionArguments := Some args'\<rparr>, (1, True))"
    and a: "args' = (case connectionArguments c_ca_only of
                       None \<Rightarrow> Map.empty | Some a \<Rightarrow> a)(''ssl'' \<mapsto> Dict m')"
    and ca: "m' ''ssl_ca'' =
               (if truthy (caCertificate ?s)
                then map_option Str (caCertificate ?s) else Map.empty ''ssl_ca'')"
    and cert: "m' ''ssl_cert'' =
               (if truthy (sslCertificate ?s)
                then map_option Str (sslCertificate ?s) else Map.empty ''ssl_cert'')"
    and key: "m' ''ssl_key'' =
               (if truthy (sslKey ?s)
                then map_option Str (sslKey ?s) else Map.empty ''ssl_key'')"
    and rest: "\<forall>k. k \<notin> {''ssl_ca'', ''ssl_cert'', ''ssl_key''} \<longrightarrow> m' k = Map.empty k"
    by blast
  have "m' = [''ssl_ca'' \<mapsto> Str ''ca.pem'']"
  proof
    fix k show "m' k = [''ssl_ca'' \<mapsto> Str ''ca.pem''] k"
      using ca cert key rest by (cases "k \<in> {''ssl_ca'', ''ssl_cert'', ''ssl_key''}")
        (auto simp: truthy_def)
  qed
  with a have "args' = [''ssl'' \<mapsto> Dict [''ssl_ca'' \<mapsto> Str ''ca.pem'']]"
    by (simp add: c_ca_only_def)
  with r h0 h1 h2 show ?thesis by simp
qed

text \<open>
  Claim C4, as stated, fails: entries that the \<^verbatim>\<open>"ssl"\<close> sub-map held beforehand stay in
  it. With \<^verbatim>\<open>check_hostname\<close> stored there and only the CA certificate set, the sub-map
  afterwards holds \<^verbatim>\<open>check_hostname\<close> besides \<^verbatim>\<open>ssl_ca\<close>.
\<close>

theorem ssl_only_present_fields_counterexample:
  "ssl c_preexisting_ssl =
     Some \<lparr>caCertificate = Some ''ca.pem'', sslCertificate = None, sslKey = None\<rparr> \<and>
   any_tls \<lparr>caCertificate = Some ''ca.pem'', sslCertificate = None, sslKey = None\<rparr> \<and>
   \<not> ssl_only_present_fields (\<lambda>c u a. ()) () () c_preexisting_ssl"
proof -
  let ?s = "\<lparr>caCertificate = Some ''ca.pem'', sslCertificate = None, sslKey = None\<rparr>"
  have h0: "ssl c_preexisting_ssl = Some ?s"
    by (simp add: c_preexisting_ssl_def)
  have h1: "any_tls ?s"
    by (simp add: any_tls_def truthy_def)
  have h2: "existing_ssl c_preexisting_ssl = Some [''check_hostname'' \<mapsto> Other False]"
    by (simp add: existing_ssl_def arguments_or_empty_eq c_preexisting_ssl_def)
  have "''check_hostname'' \<notin> present_tls_keys ?s"
    by (simp add: present_tls_keys_def)
  then show ?thesis
    using h0 h1 merge_ssl_tls [OF h0 h1 h2]
    by (auto simp: ssl_only_present_fields_def get_connection_def ssl_map_of_def
          dom_set_if_truthy)
qed

text \<open>
  Claim C4, amended. When the descriptor has a TLS bundle \<open>s\<close> in which at least one
  field is set, and the value already stored under \<^verbatim>\<open>"ssl"\<close>, if any, is a dictionary
  \<open>m0\<close> (empty when there is none), after \<^verbatim>\<open>get_connection\<close> the connection arguments
  exist and hold a nested \<^verbatim>\<open>"ssl"\<close> map \<open>m\<close> whose keys are those of the TLS fields that
  are set together with the keys \<open>m0\<close> already had, and no other; the entries of \<open>m0\<close>
  under keys that are not those of TLS fields that are set are kept as they were, and
  each TLS field that is set is stored under its key. So \<open>m\<close> holds the TLS fields
  that are set and no other entry exactly when \<open>m0\<close> had no key besides the keys of
  those fields, as when there was no \<^verbatim>\<open>"ssl"\<close> sub-map beforehand.
\<close>

theorem get_connection_ssl_keys:
  assumes "ssl c = Some s" and "any_tls s" and "existing_ssl c = Some m0"
  shows "\<exists>c' m.
      get_connection create url_fn args_fn c = Inr (c', create c' url_fn args_fn)
    \<and> connectionArguments c' \<noteq> None
    \<and> ssl_map_of c' = Some m
    \<and> dom m = present_tls_keys s \<union> dom m0
    \<and> (\<forall>k \<in> dom m0 - present_tls_keys s. m k = m0 k)
    \<and> (truthy (caCertificate s) \<longrightarrow> m ''ssl_ca'' = map_option Str (caCertificate s))
    \<and> (truthy (sslCertificate s) \<longrightarrow> m ''ssl_cert'' = map_option Str (sslCertificate s))
    \<and> (truthy (sslKey s) \<longrightarrow> m ''ssl_key'' = map_option Str (sslKey s))
    \<and> (dom m = present_tls_keys s) = (dom m0 \<subseteq> present_tls_keys s)"
proof -
  let ?m = "set_if_truthy ''ssl_key'' (sslKey s)
              (set_if_truthy ''ssl_cert'' (sslCertificate s)
                (set_if_truthy ''ssl_ca'' (caCertificate s) m0))"
  let ?args = "(arguments_or_empty (connectionArguments c))(''ssl'' \<mapsto> Dict ?m)"
  let ?c' = "c\<lparr>connectionArguments := Some ?args\<rparr>"
  have merged: "merge_ssl c = Inr ?c'"
    using merge_ssl_tls [OF assms] .
  have keys: "dom ?m = present_tls_keys s \<union> dom m0"
    by (auto simp: dom_set_if_truthy present_tls_keys_def)
  have kept: "\<forall>k \<in> dom m0 - present_tls_keys s. ?m k = m0 k"
    by (auto simp: set_if_truthy_apply present_tls_keys_def)
  have only: "(dom ?m = present_tls_keys s) = (dom m0 \<subseteq> present_tls_keys s)"
    unfolding keys by blast
  show ?thesis
    apply (rule exI [of _ ?c'])
    apply (rule exI [of _ ?m])
    apply (simp add: merged get_connection_def ssl_map_of_def keys kept)
    apply (simp add: set_if_truthy_apply)
    apply (simp add: only [unfolded keys])
    done
qed

theorem get_connection_ssl_keys_witness:
  "ssl c_merge_into_ssl =
     Some \<lparr>caCertificate = None, sslCertificate = Some ''client.pem'', sslKey = None\<rparr> \<and>
   any_tls \<lparr>caCertificate = None, sslCertificate = Some ''client.pem'', sslKey = None\<rparr> \<and>
   existing_ssl c_merge_into_ssl = Some [''check_hostname'' \<mapsto> Other True] \<and>
   (\<exists>c' m. get_connection (\<lambda>c u a. u) ''url'' ''args'' c_merge_into_ssl = Inr (c', ''url'')
      \<and> connectionArguments c' \<noteq> None
      \<and> ssl_map_of c' = Some m
      \<and> dom m = {''ssl_cert'', ''check_hostname''}
      \<and> m ''check_hostname'' = Some (Other True)
      \<and> m ''ssl_cert'' = Some (Str ''client.pem''))"
proof -
  let ?s = "\<lparr>caCertificate = None, sslCertificate = Some ''client.pem'', sslKey = None\<rparr>"
  have h0: "ssl c_merge_into_ssl = Some ?s"
    by (simp add: c_merge_into_ssl_def)
  have h1: "any_tls ?s"
    by (simp add: any_tls_def truthy_def)
  have h2: "existing_ssl c_merge_into_ssl = Some [''check_hostname'' \<mapsto> Other True]"
    by (simp add: existing_ssl_def arguments_or_empty_eq c_merge_into_ssl_def)
  have keys: "present_tls_keys ?s = {''ssl_cert''}"
    by (simp add: present_tls_keys_def truthy_def)
  have cert: "truthy (sslCertificate ?s)"
    by (simp add: truthy_def)
  from get_connection_ssl_keys [OF h0 h1 h2, of "\<lambda>c u a. u" "''url''" "''args''"]
  obtain c' m where
    r: "get_connection (\<lambda>c u a. u) ''url'' ''args'' c_merge_into_ssl = Inr (c', ''url'')"
    and ex: "connectionArguments c' \<noteq> None"
    and sm: "ssl_map_of c' = Some m"
    and d: "dom m = present_tls_keys ?s \<union> dom [''check_hostname'' \<mapsto> Other True]"
    and kept: "\<forall>k \<in> dom [''check_hostname'' \<mapsto> Other True] - present_tls_keys ?s.
                 m k = [''check_hostname'' \<mapsto> Other True] k"
    and crt: "truthy (sslCertificate ?s) \<longrightarrow> m ''ssl_cert'' = map_option Str (sslCertificate ?s)"
    by blast
  from d keys have d': "dom m = {''ssl_cert'', ''check_hostname''}" by auto
  from kept keys have k': "m ''check_hostname'' = Some (Other True)" by simp
  from crt cert have c'': "m ''ssl_cert'' = Some (Str ''client.pem'')"
    by simp
  from r ex sm d' k' c'' h0 h1 h2 show ?thesis by blast
qed

text \<open>
  With a TLS bundle whose three fields are all empty or absent the guard of line 41 is
  false: the descriptor is left as supplied, connection arguments included, and is
  handed as it is to the generic builder.
\<close>

lemma get_connection_no_tls:
  assumes "ssl c = Some s"
    and "\<not> truthy (caCertificate s)" and "\<not> truthy (sslCertificate s)"
    and "\<not> truthy (sslKey s)"
  shows "get_connection create url_fn args_fn c = Inr (c, create c url_fn args_fn)"
  using assms by (simp add: get_connection_def merge_ssl_def)

text \<open>
  Claim C6 fails on the descriptor that has no TLS bundle at all, the plainest case of
  the three fields being absent: line 42 reads \<^verbatim>\<open>connection.ssl.__root__\<close> without a
  guard, \<^verbatim>\<open>get_connection\<close> raises \<^verbatim>\<open>AttributeError\<close>, and the generic builder is not
  reached, whatever it is.
\<close>

theorem get_connection_no_bundle:
  "get_connection create url_fn args_fn c_no_bundle = Inl AttributeError"
  by (simp add: get_connection_def merge_ssl_def c_no_bundle_def)

text \<open>
  Claim C7, as stated, fails: with the three TLS fields set and a string stored under
  \<^verbatim>\<open>"ssl"\<close>, the assignment of line 51 raises \<^verbatim>\<open>TypeError\<close> and there is no \<^verbatim>\<open>"ssl"\<close> map
  afterwards.
\<close>

theorem get_connection_all_tls_counterexample:
  "ssl c_all_tls_ssl_string =
     Some \<lparr>caCertificate = Some ''ca.pem'', sslCertificate = Some ''client.pem'',
           sslKey = Some ''client.key''\<rparr> \<and>
   connectionArguments c_all_tls_ssl_string =
     Some [''charset'' \<mapsto> Str ''utf8'', ''ssl'' \<mapsto> Str ''require''] \<and>
   get_connection (\<lambda>c u a. ()) () () c_all_tls_ssl_string = Inl TypeError"
proof -
  let ?s = "\<lparr>caCertificate = Some ''ca.pem'', sslCertificate = Some ''client.pem'',
             sslKey = Some ''client.key''\<rparr>"
  have h1: "ssl c_all_tls_ssl_string = Some ?s"
    by (simp add: c_all_tls_ssl_string_def)
  have h2: "any_tls ?s"
    by (simp add: any_tls_def truthy_def)
  have h3: "existing_ssl c_all_tls_ssl_string = None"
    by (simp add: existing_ssl_def arguments_or_empty_eq c_all_tls_ssl_string_def)
  have h4: "connectionArguments c_all_tls_ssl_string =
              Some [''charset'' \<mapsto> Str ''utf8'', ''ssl'' \<mapsto> Str ''require'']"
    by (simp add: c_all_tls_ssl_string_def)
  from merge_ssl_type_error [OF h1 h2 h3] h1 h4 show ?thesis
    by (simp add: get_connection_def)
qed

text \<open>
  Claim C7, amended. When the three TLS fields are all set and the value already
  stored under \<^verbatim>\<open>"ssl"\<close>, if any, is a dictionary, after \<^verbatim>\<open>get_connection\<close> the \<^verbatim>\<open>"ssl"\<close> map
  binds \<^verbatim>\<open>ssl_ca\<close>, \<^verbatim>\<open>ssl_cert\<close> and \<^verbatim>\<open>ssl_key\<close> to the CA certificate, the client
  certificate and the key, and every key of the connection arguments other than
  \<^verbatim>\<open>"ssl"\<close> is bound as it was before.
\<close>

theorem get_connection_all_tls:
  assumes "ssl c = Some s"
    and "caCertificate s = Some ca" and "ca \<noteq> []"
    and "sslCertificate s = Some cert" and "cert \<noteq> []"
    and "sslKey s = Some key" and "key \<noteq> []"
    and "existing_ssl c = Some m0"
  shows "\<exists>args' m.
      get_connection create url_fn args_fn c =
        Inr (c\<lparr>connectionArguments := Some args'\<rparr>,
             create (c\<lparr>connectionArguments := Some args'\<rparr>) url_fn args_fn)
    \<and> args' ''ssl'' = Some (Dict m)
    \<and> m ''ssl_ca'' = Some (Str ca) \<and> m ''ssl_cert'' = Some (Str cert)
    \<and> m ''ssl_key'' = Some (Str key)
    \<and> (\<forall>k. k \<noteq> ''ssl'' \<longrightarrow>
          args' k = (case connectionArguments c of None \<Rightarrow> None | Some a \<Rightarrow> a k))"
proof -
  let ?m = "set_if_truthy ''ssl_key'' (sslKey s)
              (set_if_truthy ''ssl_cert'' (sslCertificate s)
                (set_if_truthy ''ssl_ca'' (caCertificate s) m0))"
  let ?args = "(arguments_or_empty (connectionArguments c))(''ssl'' \<mapsto> Dict ?m)"
  have tls: "any_tls s"
    using assms by (simp add: any_tls_def truthy_def)
  have merged: "merge_ssl c = Inr (c\<lparr>connectionArguments := Some ?args\<rparr>)"
    using merge_ssl_tls [OF assms(1) tls assms(8)] .
  show ?thesis
    apply (rule exI [of _ ?args])
    apply (rule exI [of _ ?m])
    using assms(2-7)
    apply (simp add: merged get_connection_def arguments_or_empty_eq set_if_truthy_apply
             truthy_def split: option.splits)
    done
qed

theorem get_connection_all_tls_witness:
  "ssl c_all_tls =
     Some \<lparr>caCertificate = Some ''ca.pem'', sslCertificate = Some ''client.pem'',
           sslKey = Some ''client.key''\<rparr> \<and>
   existing_ssl c_all_tls = Some Map.empty \<and>
   (\<exists>args' m. get_connection (\<lambda>c u a. a) ''url'' ''args'' c_all_tls =
        Inr (c_all_tls\<lparr>connectionArguments := Some args'\<rparr>, ''args'')
      \<and> args' ''ssl'' = Some (Dict m)
      \<and> m ''ssl_ca'' = Some (Str ''ca.pem'') \<and> m ''ssl_cert'' = Some (Str ''client.pem'')
      \<and> m ''ssl_key'' = Some (Str ''client.key'')
      \<and> args' ''charset'' = Some (Str ''utf8''))"
proof -
  let ?s = "\<lparr>caCertificate = Some ''ca.pem'', sslCertificate = Some ''client.pem'',
             sslKey = Some ''client.key''\<rparr>"
  have h0: "ssl c_all_tls = Some ?s"
    by (simp add: c_all_tls_def)
  have h1: "caCertificate ?s = Some ''ca.pem''"
    and h2: "sslCertificate ?s = Some ''client.pem''"
    and h3: "sslKey ?s = Some ''client.key''"
    by simp_all
  have h4: "existing_ssl c_all_tls = Some Map.empty"
    by (simp add: existing_ssl_def arguments_or_empty_eq c_all_tls_def)
  have n1: "''ca.pem'' \<noteq> []" and n2: "''client.pem'' \<noteq> []" and n3: "''client.key'' \<noteq> []"
    by simp_all
  from get_connection_all_tls [OF h0 h1 n1 h2 n2 h3 n3 h4, of "\<lambda>c u a. a" "''url''" "''args''"]
  obtain args' m where
    r: "get_connection (\<lambda>c u a. a) ''url'' ''args'' c_all_tls =
          Inr (c_all_tls\<lparr>connectionArguments := Some args'\<rparr>, ''args'')"
    and s: "args' ''ssl'' = Some (Dict m)"
    and v: "m ''ssl_ca'' = Some (Str ''ca.pem'')" "m ''ssl_cert'' = Some (Str ''client.pem'')"
           "m ''ssl_key'' = Some (Str ''client.key'')"
    and frame: "\<forall>k. k \<noteq> ''ssl'' \<longrightarrow>
          args' k = (case connectionArguments c_all_tls of None \<Rightarrow> None | Some a \<Rightarrow> a k)"
    by blast
  from frame have "args' ''charset'' = Some (Str ''utf8'')"
    by (simp add: c_all_tls_def)
  with r s v h0 h4 show ?thesis by blast
qed

text \<open>
  Claim C8. The TLS merge is idempotent: running it a second time, on the descriptor
  the first run leaves, gives the result of the first run again (the same descriptor,
  hence the same \<^verbatim>\<open>"ssl"\<close> map; an error of the first run is the result in both).
\<close>

theorem merge_ssl_idempotent:
  "(case merge_ssl c of Inl e \<Rightarrow> Inl e | Inr c' \<Rightarrow> merge_ssl c') = merge_ssl c"
proof (cases "ssl c")
  case None
  then show ?thesis by (simp add: merge_ssl_no_bundle)
next
  case has_ssl: (Some s)
  show ?thesis
  proof (cases "any_tls s")
    case False
    with has_ssl show ?thesis by (simp add: merge_ssl_no_tls)
  next
    case True
    show ?thesis
    proof (cases "existing_ssl c")
      case None
      with has_ssl True show ?thesis by (simp add: merge_ssl_type_error)
    next
      case (Some m0)
      let ?m = "set_if_truthy ''ssl_key'' (sslKey s)
                  (set_if_truthy ''ssl_cert'' (sslCertificate s)
                    (set_if_truthy ''ssl_ca'' (caCertificate s) m0))"
      let ?args = "(arguments_or_empty (connectionArguments c))(''ssl'' \<mapsto> Dict ?m)"
      let ?c' = "c\<lparr>connectionArguments := Some ?args\<rparr>"
      have first: "merge_ssl c = Inr ?c'"
        using merge_ssl_tls [OF has_ssl True Some] .
      have has_ssl': "ssl ?c' = Some s" using has_ssl by simp
      have ex': "existing_ssl ?c' = Some ?m"
        by (simp add: existing_ssl_def arguments_or_empty_eq)
      have "merge_ssl ?c' = Inr ?c'"
        using merge_ssl_tls [OF has_ssl' True ex']
        by (simp add: arguments_or_empty_eq set_if_truthy_thrice_idem)
      with first show ?thesis by simp
    qed
  qed
qed

section \<open>Properties of the Trino sampler\<close>

lemma is_nan_column_text:
  "is_nan_column (''is_nan('' @ n @ '') = False'') = Some n"
  by (simp add: is_nan_column_def)

lemma where_criteria_base_sample_query:
  "where_criteria (base_sample_query FLOAT_SET RANDOM_LABEL self column lbl) =
     [or_clause
        (map (\<lambda>cols. Text (''is_nan('' @ name cols @ '') = False''))
           (filter (\<lambda>cols. type cols \<in> FLOAT_SET)
              (filter (\<lambda>col. name col \<noteq> RANDOM_LABEL) (columns (table self)))))]"
  by (simp add: base_sample_query_def query_where_def client_query_def)

text \<open>
  Claim C1. When no column of the table other than the random-label column has a type
  in \<^verbatim>\<open>FLOAT_SET\<close>, \<^verbatim>\<open>_base_sample_query\<close> returns the projection query with \<^verbatim>\<open>or_()\<close> of
  no clause as its only criterion: no \<^verbatim>\<open>is_nan\<close> predicate is attached, and every row
  passes.
\<close>

theorem base_sample_query_no_float:
  assumes "\<forall>col \<in> set (columns (table self)).
             name col \<noteq> RANDOM_LABEL \<longrightarrow> type col \<notin> FLOAT_SET"
  shows "base_sample_query FLOAT_SET RANDOM_LABEL self column lbl =
           query_where
             (client_query
                (case column of None \<Rightarrow> TableEntity (table self) | Some col \<Rightarrow> ColumnEntity col)
                lbl)
             (or_clause [])
       \<and> nan_predicates (base_sample_query FLOAT_SET RANDOM_LABEL self column lbl) = []
       \<and> (\<forall>row. row_passes row (base_sample_query FLOAT_SET RANDOM_LABEL self column lbl))"
proof -
  have none: "filter (\<lambda>col. name col \<noteq> RANDOM_LABEL \<and> type col \<in> FLOAT_SET)
                (columns (table self)) = []"
    using assms by (auto simp: filter_empty_conv)
  have q: "base_sample_query FLOAT_SET RANDOM_LABEL self column lbl =
           query_where
             (client_query
                (case column of None \<Rightarrow> TableEntity (table self) | Some col \<Rightarrow> ColumnEntity col)
                lbl)
             (or_clause [])"
    by (simp add: base_sample_query_def none)
  have w: "where_criteria (base_sample_query FLOAT_SET RANDOM_LABEL self column lbl) =
             [or_clause []]"
    by (simp add: where_criteria_base_sample_query none)
  have n: "nan_predicates (base_sample_query FLOAT_SET RANDOM_LABEL self column lbl) = []"
    by (simp add: nan_predicates_def w)
  have r: "\<forall>row. row_passes row (base_sample_query FLOAT_SET RANDOM_LABEL self column lbl)"
    by (simp add: row_passes_def w)
  from q n r show ?thesis
    by blast
qed

theorem base_sample_query_no_float_witness:
  "filter (\<lambda>col. name col \<noteq> ''random'' \<and> type col \<in> {''FLOAT'', ''DOUBLE''})
     (columns (table t_no_float)) = [] \<and>
   base_sample_query {''FLOAT'', ''DOUBLE''} ''random'' t_no_float None (Some ''random'') =
     \<lparr>entity = TableEntity (table t_no_float), label = Some ''random'',
      where_criteria = [or_clause []]\<rparr> \<and>
   nan_predicates
     (base_sample_query {''FLOAT'', ''DOUBLE''} ''random'' t_no_float None (Some ''random'')) = [] \<and>
   row_passes (\<lambda>col. NaN)
     (base_sample_query {''FLOAT'', ''DOUBLE''} ''random'' t_no_float None (Some ''random''))"
proof -
  have h: "\<forall>col \<in> set (columns (table t_no_float)).
             name col \<noteq> ''random'' \<longrightarrow> type col \<notin> {''FLOAT'', ''DOUBLE''}"
    by (simp add: t_no_float_def)
  have e: "filter (\<lambda>col. name col \<noteq> ''random'' \<and> type col \<in> {''FLOAT'', ''DOUBLE''})
             (columns (table t_no_float)) = []"
    by (simp add: t_no_float_def)
  from base_sample_query_no_float [OF h, of None "Some ''random''"] e
  show ?thesis
    by (simp add: query_where_def client_query_def nan_predicates_def row_passes_def)
qed

lemma clause_holds_nonempty:
  "ts \<noteq> [] \<Longrightarrow> clause_holds row (or_clause ts) = (\<exists>t \<in> set ts. text_holds row t)"
  by (cases ts) (simp_all add: list_ex_iff)

lemma distinct_two_elements:
  assumes "distinct xs" and "set xs = {x, y}" and "x \<noteq> y"
  shows "xs = [x, y] \<or> xs = [y, x]"
proof -
  have "length xs = card (set xs)"
    using assms(1) by (simp add: distinct_card)
  also have "\<dots> = 2"
    using assms(2,3) by simp
  finally obtain u v where xs: "xs = [u, v]"
    by (auto simp: length_Suc_conv numeral_2_eq_2)
  with assms show ?thesis
    by (auto simp: doubleton_eq_iff)
qed

lemma nan_predicates_base_sample_query:
  "nan_predicates (base_sample_query FLOAT_SET RANDOM_LABEL self column lbl) =
     map (\<lambda>n. ''is_nan('' @ n @ '') = False'')
       (map name
          (filter (\<lambda>col. name col \<noteq> RANDOM_LABEL \<and> type col \<in> FLOAT_SET)
             (columns (table self))))"
  by (simp add: where_criteria_base_sample_query nan_predicates_def comp_def conj_commute
        del: append.simps)

text \<open>
  Claim C2. Take any table in which \<open>a\<close> and \<open>b\<close> are columns of a type in
  \<^verbatim>\<open>FLOAT_SET\<close>, neither of them the random-label column, and in which no other column
  has such a type, except possibly the random-label column, wherever it stands and
  whatever its type; columns of other types may be there too. Then the only criterion
  of the query is a disjunction whose members are exactly \<^verbatim>\<open>is_nan(a) = False\<close> and
  \<^verbatim>\<open>is_nan(b) = False\<close>; no predicate on the random-label column is among the
  predicates; a row passes exactly when \<open>a\<close> or \<open>b\<close> is a number in it, so a row with
  \<open>a\<close> NaN and \<open>b\<close> valid passes and a row with both NaN does not. When the column
  names of the table are distinct, the disjunction has these two members once each, in
  the order of the table. (A fragment is read as a test on the column whose name it
  carries, which is right for names that are plain identifiers.)
\<close>

theorem base_sample_query_two_floats:
  assumes "\<exists>col \<in> set (columns (table self)). name col = a \<and> type col \<in> FLOAT_SET"
    and "\<exists>col \<in> set (columns (table self)). name col = b \<and> type col \<in> FLOAT_SET"
    and "a \<noteq> RANDOM_LABEL" and "b \<noteq> RANDOM_LABEL"
    and "\<forall>col \<in> set (columns (table self)).
           type col \<in> FLOAT_SET \<longrightarrow> name col = a \<or> name col = b \<or> name col = RANDOM_LABEL"
  shows "(\<exists>ts. where_criteria (base_sample_query FLOAT_SET RANDOM_LABEL self column lbl) =
                 [or_clause ts]
              \<and> set ts = {Text (''is_nan('' @ a @ '') = False''),
                          Text (''is_nan('' @ b @ '') = False'')})
       \<and> ''is_nan('' @ RANDOM_LABEL @ '') = False'' \<notin>
           set (nan_predicates (base_sample_query FLOAT_SET RANDOM_LABEL self column lbl))
       \<and> (\<forall>row. row_passes row (base_sample_query FLOAT_SET RANDOM_LABEL self column lbl) =
                  (row a = Valid \<or> row b = Valid))
       \<and> (\<forall>row. row a = NaN \<and> row b = Valid \<longrightarrow>
                  row_passes row (base_sample_query FLOAT_SET RANDOM_LABEL self column lbl))
       \<and> (\<forall>row. row a = NaN \<and> row b = NaN \<longrightarrow>
                  \<not> row_passes row (base_sample_query FLOAT_SET RANDOM_LABEL self column lbl))
       \<and> (distinct (map name (columns (table self))) \<and> a \<noteq> b \<longrightarrow>
            nan_predicates (base_sample_query FLOAT_SET RANDOM_LABEL self column lbl) =
              [''is_nan('' @ a @ '') = False'', ''is_nan('' @ b @ '') = False'']
          \<or> nan_predicates (base_sample_query FLOAT_SET RANDOM_LABEL self column lbl) =
              [''is_nan('' @ b @ '') = False'', ''is_nan('' @ a @ '') = False''])"
proof -
  let ?q = "base_sample_query FLOAT_SET RANDOM_LABEL self column lbl"
  let ?floats = "filter (\<lambda>col. name col \<noteq> RANDOM_LABEL \<and> type col \<in> FLOAT_SET)
                   (columns (table self))"
  let ?p = "\<lambda>n. ''is_nan('' @ n @ '') = False''"
  let ?ts = "map (\<lambda>cols. Text (?p (name cols))) ?floats"
  have names: "set (map name ?floats) = {a, b}"
    using assms by auto
  have w: "where_criteria ?q = [or_clause ?ts]"
    by (simp add: where_criteria_base_sample_query conj_commute del: append.simps)
  have "set ?ts = (\<lambda>n. Text (?p n)) ` set (map name ?floats)"
    by (simp add: image_image del: append.simps)
  then have ts: "set ?ts = {Text (?p a), Text (?p b)}"
    unfolding names by (simp del: append.simps)
  have preds: "nan_predicates ?q = map ?p (map name ?floats)"
    by (rule nan_predicates_base_sample_query)
  then have pset: "set (nan_predicates ?q) = {?p a, ?p b}"
    using names by (simp only: set_map) simp
  have r: "?p RANDOM_LABEL \<notin> set (nan_predicates ?q)"
    unfolding pset using assms(3,4) by simp
  have "?floats \<noteq> []"
  proof
    assume "?floats = []"
    then have "set (map name ?floats) = {}"
      by (simp only: list.map list.set)
    with names show False
      by simp
  qed
  then have ne: "?ts \<noteq> []"
    by simp
  have p: "\<And>row. row_passes row ?q = (row a = Valid \<or> row b = Valid)"
    unfolding row_passes_def w
    by (simp only: list_all_iff list.set ball_simps clause_holds_nonempty [OF ne] ts)
       (simp add: is_nan_column_text del: append.simps)
  have ord: "nan_predicates ?q = [?p a, ?p b] \<or> nan_predicates ?q = [?p b, ?p a]"
    if d: "distinct (map name (columns (table self)))" and ab: "a \<noteq> b"
  proof -
    have "distinct (map name ?floats)"
      using d by (rule distinct_map_filter)
    moreover have "inj_on ?p (set (map name ?floats))"
      by (rule inj_onI) simp
    ultimately have "distinct (nan_predicates ?q)"
      unfolding preds by (simp only: distinct_map)
    moreover have "?p a \<noteq> ?p b"
      using ab by simp
    ultimately show ?thesis
      using pset by (intro distinct_two_elements)
  qed
  show ?thesis
    using w ts r ord by (simp add: p del: append.simps)
qed

theorem base_sample_query_two_floats_witness:
  "columns (table t_two_floats) =
     [\<lparr>name = ''random'', type = ''FLOAT''\<rparr>, \<lparr>name = ''a'', type = ''FLOAT''\<rparr>,
      \<lparr>name = ''id'', type = ''INTEGER''\<rparr>, \<lparr>name = ''b'', type = ''DOUBLE''\<rparr>] \<and>
   nan_predicates
     (base_sample_query {''FLOAT'', ''DOUBLE''} ''random'' t_two_floats None (None :: unit option)) =
     [''is_nan(a) = False'', ''is_nan(b) = False''] \<and>
   ''is_nan(random) = False'' \<notin> set (nan_predicates
     (base_sample_query {''FLOAT'', ''DOUBLE''} ''random'' t_two_floats None (None :: unit option))) \<and>
   row_passes ((\<lambda>col. Valid)(''a'' := NaN))
     (base_sample_query {''FLOAT'', ''DOUBLE''} ''random'' t_two_floats None (None :: unit option)) \<and>
   \<not> row_passes ((\<lambda>col. Valid)(''a'' := NaN, ''b'' := NaN))
     (base_sample_query {''FLOAT'', ''DOUBLE''} ''random'' t_two_floats None (None :: unit option))"
proof -
  let ?F = "{''FLOAT'', ''DOUBLE''}"
  have cols: "columns (table t_two_floats) =
     [\<lparr>name = ''random'', type = ''FLOAT''\<rparr>, \<lparr>name = ''a'', type = ''FLOAT''\<rparr>,
      \<lparr>name = ''id'', type = ''INTEGER''\<rparr>, \<lparr>name = ''b'', type = ''DOUBLE''\<rparr>]"
    by (simp add: t_two_floats_def)
  have ha: "\<exists>col \<in> set (columns (table t_two_floats)). name col = ''a'' \<and> type col \<in> ?F"
    and hb: "\<exists>col \<in> set (columns (table t_two_floats)). name col = ''b'' \<and> type col \<in> ?F"
    and hf: "\<forall>col \<in> set (columns (table t_two_floats)).
           type col \<in> ?F \<longrightarrow> name col = ''a'' \<or> name col = ''b'' \<or> name col = ''random''"
    by (simp_all add: cols)
  have n1: "''a'' \<noteq> ''random''" and n2: "''b'' \<noteq> ''random''"
    by simp_all
  have d: "distinct (map name (columns (table t_two_floats)))" and ab: "''a'' \<noteq> ''b''"
    by (simp_all add: cols)
  have first: "hd (nan_predicates
     (base_sample_query ?F ''random'' t_two_floats None (None :: unit option))) =
       ''is_nan(a) = False''"
    by (simp add: nan_predicates_base_sample_query cols)
  from base_sample_query_two_floats [OF ha hb n1 n2 hf, of None "None :: unit option"]
    d ab first cols
  show ?thesis
    by auto
qed

text \<open>
  Claim C5. With no column given the entity of the query is the whole table; with a
  column given it is that column alone; and the label given, null or not, is the label
  of the query.
\<close>

theorem base_sample_query_entity:
  "entity (base_sample_query FLOAT_SET RANDOM_LABEL self None lbl) = TableEntity (table self)
 \<and> entity (base_sample_query FLOAT_SET RANDOM_LABEL self (Some col) lbl) = ColumnEntity col
 \<and> label (base_sample_query FLOAT_SET RANDOM_LABEL self column lbl) = lbl"
  by (simp add: base_sample_query_def query_where_def client_query_def)

text \<open>
  Claim C10. The criteria of the query do not depend on the column argument (nor on
  the label): they are the same for any two calls on the same table, and the
  predicates are those of all the columns of the table with a type in \<^verbatim>\<open>FLOAT_SET\<close>,
  the random-label column apart, in the order of the table.
\<close>

theorem base_sample_query_filter_ignores_column:
  "where_criteria (base_sample_query FLOAT_SET RANDOM_LABEL self column1 lbl1) =
   where_criteria (base_sample_query FLOAT_SET RANDOM_LABEL self column2 lbl2)
 \<and> nan_predicates (base_sample_query FLOAT_SET RANDOM_LABEL self column1 lbl1) =
     map (\<lambda>col. ''is_nan('' @ name col @ '') = False'')
       (filter (\<lambda>col. name col \<noteq> RANDOM_LABEL \<and> type col \<in> FLOAT_SET) (columns (table self)))"
  by (simp add: where_criteria_base_sample_query nan_predicates_def comp_def conj_commute
        del: append.simps)

lemma construct_all_keeps_disabled:
  assumes "\<forall>a s. json_deserializer (snd (super_init a s)) = json_deserializer s"
    and "json_deserializer process = None"
  shows "json_deserializer (construct_all super_init rest process) = None"
  using assms(2)
proof (induction rest arbitrary: process)
  case Nil
  then show ?case by simp
next
  case (Cons args rest)
  have "json_deserializer (snd (TrinoSampler_init super_init args process)) = None"
    using assms(1) by (simp add: TrinoSampler_init_def)
  then show ?case
    using Cons.IH by simp
qed

text \<open>
  Claim C9. The constructor sets the deserialization hook of the dialect to \<^verbatim>\<open>None\<close> and
  runs the base initializer on the state so patched; assigning \<^verbatim>\<open>None\<close> twice is assigning
  it once; and, the base initializer leaving the hook alone, the hook is \<^verbatim>\<open>None\<close> after
  one construction and is the same after any number of further ones.
\<close>

theorem TrinoSampler_init_disables_hook:
  assumes "\<forall>a s. json_deserializer (snd (super_init a s)) = json_deserializer s"
  shows "TrinoSampler_init super_init args process =
           super_init args (process\<lparr>json_deserializer := None\<rparr>)
       \<and> (process\<lparr>json_deserializer := None\<rparr>)\<lparr>json_deserializer := None\<rparr> =
           process\<lparr>json_deserializer := None\<rparr>
       \<and> json_deserializer (snd (TrinoSampler_init super_init args process)) = None
       \<and> json_deserializer (construct_all super_init (args # rest) process) =
           json_deserializer (snd (TrinoSampler_init super_init args process))"
proof -
  have one: "json_deserializer (snd (TrinoSampler_init super_init args process)) = None"
    using assms by (simp add: TrinoSampler_init_def)
  have "json_deserializer
          (construct_all super_init rest (snd (TrinoSampler_init super_init args process))) = None"
    using construct_all_keeps_disabled [OF assms one] .
  with one show ?thesis
    by (simp add: TrinoSampler_init_def)
qed

theorem TrinoSampler_init_disables_hook_witness:
  "(\<forall>a s. json_deserializer (snd ((\<lambda>a s. (a, s)) a (s :: string TrinoDialect))) =
            json_deserializer s) \<and>
   TrinoSampler_init (\<lambda>a s. (a, s)) (1::nat) \<lparr>json_deserializer = Some ''json.loads''\<rparr> =
     (1, \<lparr>json_deserializer = None\<rparr>) \<and>
   json_deserializer
     (construct_all (\<lambda>a s. (a, s)) [1::nat, 2, 3] \<lparr>json_deserializer = Some ''json.loads''\<rparr>) =
     None"
proof -
  have h: "\<forall>a s. json_deserializer (snd ((\<lambda>a s. (a, s)) (a :: nat) (s :: string TrinoDialect))) =
            json_deserializer s"
    by simp
  from TrinoSampler_init_disables_hook [OF h, of 1 "\<lparr>json_deserializer = Some ''json.loads''\<rparr>" "[2, 3]"]
  show ?thesis
    by (simp add: TrinoSampler_init_def)
qed

end
